theory Spec2Isabelle
  imports Complex_Main
begin

section \<open>The grid calculator of \<open>calc.py\<close>\<close>

text \<open>
  The program computes a descending ladder of prices, a lot size for each level, and the
  running totals of the position. Its numbers are Python floats; here they are exact
  rationals (the "decimal" of the specification), so rounding errors of binary floating
  point are outside this development. A float that is not finite (the \<open>NaN\<close> or
  \<open>\<plusminus>inf\<close> that pandas yields for a division by zero, and everything computed from
  it) is \<open>None\<close> in a column of type \<open>rat option list\<close>. An exception of Python
  is the left summand of a result.
\<close>

subsection \<open>Module constants\<close>

datatype py_error = ZeroDivisionError | ValueError | IndexError

definition LOTES_A_UNIDADES :: rat where
  "LOTES_A_UNIDADES = 100"

definition PASO :: int where
  "PASO = 5"

definition TOTAL_UNIDADES :: int where
  "TOTAL_UNIDADES = 120"

definition DIVISOR_LOTE :: rat where
  "DIVISOR_LOTE = 1.5932"

subsection \<open>\<open>generar_precios\<close>\<close>

text \<open>
  \<open>total_unidades // paso\<close> is Python's floor division of integers, which raises for a
  zero divisor; \<open>div\<close> on \<open>int\<close> rounds the same way. \<open>range(n)\<close> is \<open>[0..n - 1]\<close>,
  empty for \<open>n \<le> 0\<close>.
\<close>

definition generar_precios :: "rat \<Rightarrow> int \<Rightarrow> int \<Rightarrow> py_error + rat list" where
  "generar_precios precio_inicial total_unidades paso =
     (if paso = 0 then Inl ZeroDivisionError
      else
        let numero_puntos = total_unidades div paso + 1;
            precios = map (\<lambda>i. precio_inicial - of_int (i * paso)) [0..numero_puntos - 1]
        in Inr precios)"

subsection \<open>\<open>asignar_lotes\<close>\<close>

text \<open>
  The \<open>if\<close>/\<open>elif\<close> chain of the loop body is split into the branch that is entered
  (\<open>rama\<close>, the conditions in the order of the source) and the value that this branch
  appends (\<open>valor_rama\<close>).
\<close>

datatype rama =
    R_0_15 | R_20 | R_25_30 | R_35_55_es_55 | R_35_55_resto | R_60 | R_65_90 | R_91_94
  | R_95_120 | R_else

definition rama :: "rat \<Rightarrow> rama" where
  "rama diferencia =
     (if 0 \<le> diferencia \<and> diferencia \<le> 15 then R_0_15
      else if diferencia = 20 then R_20
      else if diferencia \<in> set [25, 30] then R_25_30
      else if 35 \<le> diferencia \<and> diferencia \<le> 55 then
        (if diferencia = 55 then R_35_55_es_55 else R_35_55_resto)
      else if diferencia = 60 then R_60
      else if 65 \<le> diferencia \<and> diferencia \<le> 90 then R_65_90
      else if 91 \<le> diferencia \<and> diferencia \<le> 94 then R_91_94
      else if 95 \<le> diferencia \<and> diferencia \<le> 120 then R_95_120
      else R_else)"

fun valor_rama :: "rama \<Rightarrow> rat" where
  "valor_rama R_0_15 = 0.5"
| "valor_rama R_20 = 0.0"
| "valor_rama R_25_30 = 2.0"
| "valor_rama R_35_55_es_55 = 0.0"
| "valor_rama R_35_55_resto = 0.625"
| "valor_rama R_60 = 6.0"
| "valor_rama R_65_90 = 2.0"
| "valor_rama R_91_94 = 1.5"
| "valor_rama R_95_120 = 3.375"
| "valor_rama R_else = 0.5"

text \<open>The \<open>for\<close> loop, appending to \<open>lotes\<close>.\<close>

fun asignar_lotes_bucle :: "rat \<Rightarrow> rat list \<Rightarrow> rat list \<Rightarrow> rat list" where
  "asignar_lotes_bucle precio_inicial [] lotes = lotes"
| "asignar_lotes_bucle precio_inicial (precio # precios) lotes =
     (let diferencia = precio_inicial - precio
      in asignar_lotes_bucle precio_inicial precios (lotes @ [valor_rama (rama diferencia)]))"

definition asignar_lotes :: "rat \<Rightarrow> rat list \<Rightarrow> rat list" where
  "asignar_lotes precio_inicial precios =
     (let lotes = asignar_lotes_bucle precio_inicial precios [];
          lotes_ajustados = map (\<lambda>lote. lote / DIVISOR_LOTE) lotes
      in lotes_ajustados)"

subsection \<open>Data frames\<close>

text \<open>
  A data frame is the record of its columns. \<open>pd.DataFrame\<close> raises \<open>ValueError\<close> for
  columns of different lengths.
\<close>

record df_precios =
  Precio :: "rat list"
  Lotes :: "rat list"

record df_acumulados = df_precios +
  Lotes_Acumulados :: "rat list"
  Costo_Acumulado :: "rat list"
  Break_Even :: "rat option list"
  Flotante :: "rat option list"
  Puntos_de_salida :: "rat option list"
  Ganancia_Potencial :: "rat option list"

definition crear_dataframe :: "rat list \<Rightarrow> rat list \<Rightarrow> py_error + df_precios" where
  "crear_dataframe precios lotes =
     (if length precios \<noteq> length lotes then Inl ValueError
      else Inr \<lparr>Precio = precios, Lotes = lotes\<rparr>)"

subsection \<open>Operations on columns\<close>

text \<open>\<open>Series.cumsum\<close>: the running sums, from the left.\<close>

fun cumsum_desde :: "rat \<Rightarrow> rat list \<Rightarrow> rat list" where
  "cumsum_desde acc [] = []"
| "cumsum_desde acc (x # xs) = (acc + x) # cumsum_desde (acc + x) xs"

definition cumsum :: "rat list \<Rightarrow> rat list" where
  "cumsum xs = cumsum_desde 0 xs"

text \<open>
  Division of floats in pandas does not raise: a zero divisor gives \<open>NaN\<close> or an
  infinity, here \<open>None\<close>. Subtraction, multiplication and \<open>abs\<close> keep a value that is
  not finite not finite (the factor of every product below is finite).
\<close>

definition dividir :: "rat \<Rightarrow> rat \<Rightarrow> rat option" where
  "dividir a b = (if b = 0 then None else Some (a / b))"

definition restar :: "rat \<Rightarrow> rat option \<Rightarrow> rat option" where
  "restar a b = map_option (\<lambda>v. a - v) b"

definition multiplicar :: "rat option \<Rightarrow> rat \<Rightarrow> rat option" where
  "multiplicar a b = map_option (\<lambda>v. v * b) a"

definition valor_absoluto :: "rat option \<Rightarrow> rat option" where
  "valor_absoluto a = map_option abs a"

subsection \<open>\<open>calcular_acumulados\<close>\<close>

definition calcular_acumulados :: "df_precios \<Rightarrow> rat \<Rightarrow> df_acumulados" where
  "calcular_acumulados df precio_inicial =
     (let lotes_acumulados = cumsum (Lotes df);
          costo_acumulado =
            cumsum (map2 (\<lambda>precio lote. precio * lote * LOTES_A_UNIDADES) (Precio df) (Lotes df));
          unidades = map (\<lambda>la. la * LOTES_A_UNIDADES) lotes_acumulados;
          break_even = map2 dividir costo_acumulado unidades;
          flotante = map2 multiplicar (map2 restar (Precio df) break_even) unidades;
          puntos_de_salida = map valor_absoluto (map2 restar (Precio df) break_even);
          ganancia_potencial =
            map2 multiplicar (map (restar precio_inicial) break_even) unidades
      in \<lparr>Precio = Precio df, Lotes = Lotes df,
          Lotes_Acumulados = lotes_acumulados, Costo_Acumulado = costo_acumulado,
          Break_Even = break_even, Flotante = flotante,
          Puntos_de_salida = puntos_de_salida, Ganancia_Potencial = ganancia_potencial\<rparr>)"

subsection \<open>\<open>validar_precio_final\<close>\<close>

text \<open>
  \<open>st.error\<close> shows a message and the function goes on: the messages shown are part of
  the result. \<open>iloc[-1]\<close> of an empty column raises \<open>IndexError\<close>.
\<close>

datatype mensaje = Error_longitud | Error_precio_final rat rat

definition validar_precio_final ::
  "'a df_precios_scheme \<Rightarrow> rat \<Rightarrow> py_error + (bool \<times> mensaje list)" where
  "validar_precio_final df precio_esperado =
     (if Precio df = [] then Inl IndexError
      else
        let ultimo_precio_calculado = last (Precio df)
        in if ultimo_precio_calculado \<noteq> precio_esperado
           then Inr (False, [Error_precio_final ultimo_precio_calculado precio_esperado])
           else Inr (True, []))"

subsection \<open>\<open>main\<close>: the computation behind the button\<close>

text \<open>
  \<open>Series.round(n)\<close> rounds to \<open>n\<close> decimals, a tie to the even neighbour; a value that
  is not finite stays as it is.
\<close>

definition rint :: "rat \<Rightarrow> int" where
  "rint x =
     (let f = \<lfloor>x\<rfloor>; r = x - of_int f
      in if r < 1 / 2 then f else if 1 / 2 < r then f + 1 else if even f then f else f + 1)"

definition redondear :: "nat \<Rightarrow> rat \<Rightarrow> rat" where
  "redondear n x = of_int (rint (x * 10 ^ n)) / 10 ^ n"

definition redondear_columnas :: "df_acumulados \<Rightarrow> df_acumulados" where
  "redondear_columnas df =
     \<lparr>Precio = map (redondear 2) (Precio df),
      Lotes = map (redondear 4) (Lotes df),
      Lotes_Acumulados = map (redondear 4) (Lotes_Acumulados df),
      Costo_Acumulado = map (redondear 2) (Costo_Acumulado df),
      Break_Even = map (map_option (redondear 2)) (Break_Even df),
      Flotante = map (map_option (redondear 2)) (Flotante df),
      Puntos_de_salida = map (map_option (redondear 2)) (Puntos_de_salida df),
      Ganancia_Potencial = map (map_option (redondear 2)) (Ganancia_Potencial df)\<rparr>"

record resumen =
  break_even_final :: "rat option"
  flotante_total :: "rat option"
  ganancia_potencial_total :: "rat option"
  total_lotes_acumulados :: rat

datatype pantalla = Muestra_errores "mensaje list" | Muestra_resultados df_acumulados resumen

definition iloc_ultimo :: "'a list \<Rightarrow> py_error + 'a" where
  "iloc_ultimo xs = (if xs = [] then Inl IndexError else Inr (last xs))"

definition resumen_final :: "df_acumulados \<Rightarrow> py_error + resumen" where
  "resumen_final df =
     (case iloc_ultimo (Break_Even df) of Inl e \<Rightarrow> Inl e
      | Inr be \<Rightarrow>
        (case iloc_ultimo (Flotante df) of Inl e \<Rightarrow> Inl e
         | Inr fl \<Rightarrow>
           (case iloc_ultimo (Ganancia_Potencial df) of Inl e \<Rightarrow> Inl e
            | Inr gp \<Rightarrow>
              (case iloc_ultimo (Lotes_Acumulados df) of Inl e \<Rightarrow> Inl e
               | Inr la \<Rightarrow>
                 Inr \<lparr>break_even_final = be, flotante_total = fl,
                      ganancia_potencial_total = gp, total_lotes_acumulados = la\<rparr>))))"

text \<open>
  The body of \<open>main\<close> once the button is pressed, with the module constants
  \<open>TOTAL_UNIDADES\<close> and \<open>PASO\<close> as parameters; \<open>main\<close> passes the constants.
\<close>

definition main_con :: "int \<Rightarrow> int \<Rightarrow> rat \<Rightarrow> py_error + pantalla" where
  "main_con total_unidades paso precio_inicial =
     (case generar_precios precio_inicial total_unidades paso of Inl e \<Rightarrow> Inl e
      | Inr precios \<Rightarrow>
        let lotes = asignar_lotes precio_inicial precios
        in if length precios \<noteq> length lotes then Inr (Muestra_errores [Error_longitud])
           else
             (case crear_dataframe precios lotes of Inl e \<Rightarrow> Inl e
              | Inr df0 \<Rightarrow>
                let df = redondear_columnas (calcular_acumulados df0 precio_inicial);
                    precio_esperado = precio_inicial - of_int total_unidades
                in (case validar_precio_final df precio_esperado of Inl e \<Rightarrow> Inl e
                    | Inr (es_valido, mensajes) \<Rightarrow>
                      if es_valido then
                        (case resumen_final df of Inl e \<Rightarrow> Inl e
                         | Inr r \<Rightarrow> Inr (Muestra_resultados df r))
                      else Inr (Muestra_errores mensajes))))"

definition main :: "rat \<Rightarrow> py_error + pantalla" where
  "main precio_inicial = main_con TOTAL_UNIDADES PASO precio_inicial"

subsection \<open>The specification's table and fold\<close>

text \<open>
  The rule table as the specification words it: an ordered list of conditions on the
  distance with their raw lots, the first match wins, \<open>0.5\<close> when none matches, and the
  result divided by \<open>1.5932\<close>.
\<close>

datatype condicion = Entre rat rat | Igual rat | Uno_de "rat list" | Entre_salvo rat rat rat

fun cumple :: "condicion \<Rightarrow> rat \<Rightarrow> bool" where
  "cumple (Entre lo hi) d = (lo \<le> d \<and> d \<le> hi)"
| "cumple (Igual v) d = (d = v)"
| "cumple (Uno_de vs) d = (d \<in> set vs)"
| "cumple (Entre_salvo lo hi v) d = (lo \<le> d \<and> d \<le> hi \<and> d \<noteq> v)"

definition tabla_reglas :: "(condicion \<times> rat) list" where
  "tabla_reglas =
     [(Entre 0 15, 0.5), (Igual 20, 0.0), (Uno_de [25, 30], 2.0),
      (Entre_salvo 35 55 55, 0.625), (Igual 55, 0.0), (Igual 60, 6.0),
      (Entre 65 90, 2.0), (Entre 91 94, 1.5), (Entre 95 120, 3.375)]"

fun primera_regla :: "(condicion \<times> rat) list \<Rightarrow> rat \<Rightarrow> rat" where
  "primera_regla [] d = 0.5"
| "primera_regla ((c, v) # reglas) d = (if cumple c d then v else primera_regla reglas d)"

definition allocateLots_spec :: "rat \<Rightarrow> rat list \<Rightarrow> rat list" where
  "allocateLots_spec start prices =
     map (\<lambda>price. primera_regla tabla_reglas (start - price) / 1.5932) prices"

text \<open>
  The accumulator as the specification words it: a fold from the left over the
  \<open>(price, lot)\<close> rows that carries the running lot and the running cost, and derives
  the other fields of a row from the running state at this row.
\<close>

record fila =
  price :: rat
  lot :: rat
  cumulativeLot :: rat
  cumulativeCost :: rat
  breakEven :: "rat option"
  floatingValue :: "rat option"
  distanceToBreakEven :: "rat option"
  potentialProfit :: "rat option"

definition fila_de :: "rat \<Rightarrow> rat \<Rightarrow> rat \<Rightarrow> rat \<Rightarrow> rat \<Rightarrow> fila" where
  "fila_de start p l cl cc =
     (let be = (if cl = 0 then None else Some (cc / (cl * 100)))
      in \<lparr>price = p, lot = l, cumulativeLot = cl, cumulativeCost = cc,
          breakEven = be,
          floatingValue = map_option (\<lambda>b. (p - b) * (cl * 100)) be,
          distanceToBreakEven = map_option (\<lambda>b. \<bar>p - b\<bar>) be,
          potentialProfit = map_option (\<lambda>b. (start - b) * (cl * 100)) be\<rparr>)"

fun accumulate_desde :: "rat \<Rightarrow> rat \<Rightarrow> rat \<Rightarrow> (rat \<times> rat) list \<Rightarrow> fila list" where
  "accumulate_desde start cl cc [] = []"
| "accumulate_desde start cl cc ((p, l) # rows) =
     (let cl' = cl + l; cc' = cc + p * l * 100
      in fila_de start p l cl' cc' # accumulate_desde start cl' cc' rows)"

definition accumulate_spec :: "(rat \<times> rat) list \<Rightarrow> rat \<Rightarrow> fila list" where
  "accumulate_spec rows start = accumulate_desde start 0 0 rows"

section \<open>Properties\<close>

subsection \<open>Auxiliary facts\<close>

lemma DIVISOR_LOTE_pos: "0 < DIVISOR_LOTE"
  by (simp add: DIVISOR_LOTE_def)

lemma asignar_lotes_bucle_map:
  "asignar_lotes_bucle s ps acc = acc @ map (\<lambda>p. valor_rama (rama (s - p))) ps"
  by (induction ps arbitrary: acc) simp_all

lemma asignar_lotes_map:
  "asignar_lotes s ps = map (\<lambda>p. valor_rama (rama (s - p)) / DIVISOR_LOTE) ps"
  by (simp add: asignar_lotes_def asignar_lotes_bucle_map)

lemma valor_rama_nonneg: "0 \<le> valor_rama r"
  by (cases r) simp_all

lemma primera_regla_tabla: "primera_regla tabla_reglas d = valor_rama (rama d)"
  by (simp add: tabla_reglas_def rama_def)

subsection \<open>The lot allocator\<close>

text \<open>
  C1. For every starting price and every sequence of prices, \<open>asignar_lotes\<close> returns
  one lot per price, in the order of the prices: the lot at position \<open>i\<close> is the raw lot
  that the first matching rule of the specification's table gives for the distance
  \<open>start - precios ! i\<close> (\<open>0.5\<close> when no rule matches), divided by \<open>1.5932\<close>.
\<close>

theorem asignar_lotes_tabla:
  "asignar_lotes start precios = allocateLots_spec start precios
   \<and> length (asignar_lotes start precios) = length precios
   \<and> (\<forall>i < length precios.
        asignar_lotes start precios ! i
          = primera_regla tabla_reglas (start - precios ! i) / 1.5932)"
  by (simp add: asignar_lotes_map allocateLots_spec_def primera_regla_tabla DIVISOR_LOTE_def)

theorem asignar_lotes_tabla_witness:
  "length [2700, 2683, 2645, 2609, 2500 :: rat] = 5
   \<and> asignar_lotes 2700 [2700, 2683, 2645, 2609, 2500]
       = [0.5 / 1.5932, 0.5 / 1.5932, 0.0 / 1.5932, 1.5 / 1.5932, 0.5 / 1.5932]"
  using asignar_lotes_tabla [of 2700 "[2700, 2683, 2645, 2609, 2500]"]
  by (simp add: allocateLots_spec_def tabla_reglas_def)

text \<open>
  C4. The distance 55 gives the lot 0 (and not \<open>0.625 / 1.5932\<close>), the distance 20
  gives the lot 0, and the distance 60 gives \<open>6.0 / 1.5932\<close>, for every starting price.
\<close>

theorem asignar_lotes_fronteras:
  "asignar_lotes start [start - 55] = [0]
   \<and> asignar_lotes start [start - 55] \<noteq> [0.625 / 1.5932]
   \<and> asignar_lotes start [start - 20] = [0]
   \<and> asignar_lotes start [start - 60] = [6.0 / 1.5932]"
  by (simp add: asignar_lotes_map rama_def DIVISOR_LOTE_def)

lemma generar_precios_Inr:
  "paso \<noteq> 0 \<Longrightarrow>
   generar_precios s t paso = Inr (map (\<lambda>i. s - of_int (i * paso)) [0..t div paso])"
  by (simp add: generar_precios_def)

lemma generar_precios_nth:
  assumes "0 < paso" "0 \<le> t" "generar_precios s t paso = Inr ps"
  shows "length ps = nat (t div paso + 1)"
    and "i < length ps \<Longrightarrow> ps ! i = s - of_nat i * of_int paso"
proof -
  have ps: "ps = map (\<lambda>i. s - of_int (i * paso)) [0..t div paso]"
    using assms by (simp add: generar_precios_Inr)
  have nn: "0 \<le> t div paso"
    using assms by (simp add: pos_imp_zdiv_nonneg_iff)
  show len: "length ps = nat (t div paso + 1)"
    by (simp add: ps)
  show "ps ! i = s - of_nat i * of_int paso" if "i < length ps"
  proof -
    have "int i \<le> t div paso" using that nn by (simp add: ps)
    then have "[0..t div paso] ! i = int i" by simp
    with that show ?thesis by (simp add: ps)
  qed
qed

lemma generar_precios_escalera:
  "generar_precios s TOTAL_UNIDADES PASO = Inr (map (\<lambda>i. s - of_int (i * 5)) [0..24])"
  by (simp add: generar_precios_def TOTAL_UNIDADES_def PASO_def)

subsection \<open>The ladder\<close>



lemma cumsum_desde_length: "length (cumsum_desde acc xs) = length xs"
  by (induction xs arbitrary: acc) simp_all

lemma cumsum_desde_nth:
  "i < length xs \<Longrightarrow> cumsum_desde acc xs ! i = acc + sum_list (take (Suc i) xs)"
proof (induction xs arbitrary: acc i)
  case Nil
  then show ?case by simp
next
  case (Cons x xs)
  then show ?case by (cases i) (simp_all add: add.assoc)
qed

lemma accumulate_desde_length: "length (accumulate_desde s cl cc rows) = length rows"
  by (induction rows arbitrary: cl cc) (auto simp: Let_def)

lemma accumulate_desde_entradas:
  "length ps = length ls \<Longrightarrow>
   map price (accumulate_desde s cl cc (zip ps ls)) = ps
   \<and> map lot (accumulate_desde s cl cc (zip ps ls)) = ls"
  by (induction ps ls arbitrary: cl cc rule: list_induct2) (simp_all add: Let_def fila_de_def)

lemma accumulate_desde_acumulados:
  "length ps = length ls \<Longrightarrow>
   map cumulativeLot (accumulate_desde s cl cc (zip ps ls)) = cumsum_desde cl ls
   \<and> map cumulativeCost (accumulate_desde s cl cc (zip ps ls))
       = cumsum_desde cc (map2 (\<lambda>p l. p * l * LOTES_A_UNIDADES) ps ls)"
  by (induction ps ls arbitrary: cl cc rule: list_induct2)
     (simp_all add: Let_def fila_de_def LOTES_A_UNIDADES_def)

lemma accumulate_desde_break_even:
  "length ps = length ls \<Longrightarrow>
   map breakEven (accumulate_desde s cl cc (zip ps ls))
     = map2 dividir (cumsum_desde cc (map2 (\<lambda>p l. p * l * LOTES_A_UNIDADES) ps ls))
         (map (\<lambda>la. la * LOTES_A_UNIDADES) (cumsum_desde cl ls))"
  by (induction ps ls arbitrary: cl cc rule: list_induct2)
     (simp_all add: Let_def fila_de_def LOTES_A_UNIDADES_def dividir_def)

lemma accumulate_desde_derivados:
  "length ps = length ls \<Longrightarrow>
   map floatingValue (accumulate_desde s cl cc (zip ps ls))
     = map2 multiplicar (map2 restar ps (map breakEven (accumulate_desde s cl cc (zip ps ls))))
         (map (\<lambda>la. la * LOTES_A_UNIDADES) (cumsum_desde cl ls))
   \<and> map distanceToBreakEven (accumulate_desde s cl cc (zip ps ls))
     = map valor_absoluto (map2 restar ps (map breakEven (accumulate_desde s cl cc (zip ps ls))))
   \<and> map potentialProfit (accumulate_desde s cl cc (zip ps ls))
     = map2 multiplicar (map (restar s) (map breakEven (accumulate_desde s cl cc (zip ps ls))))
         (map (\<lambda>la. la * LOTES_A_UNIDADES) (cumsum_desde cl ls))"
  by (induction ps ls arbitrary: cl cc rule: list_induct2)
     (simp_all add: Let_def fila_de_def LOTES_A_UNIDADES_def multiplicar_def restar_def
        valor_absoluto_def)

subsection \<open>The accumulator\<close>

text \<open>
  C3. On a frame of prices and lots, the columns that \<open>calcular_acumulados\<close> computes
  are, row by row and in the order of the input, the fields of the specification's fold
  from the left: the cumulative lot is the running sum of the lots, the cumulative cost
  the running sum of \<open>price * lot * 100\<close>, and break-even, floating value, distance
  to break-even and potential profit are derived from the running totals at the row.
\<close>

theorem calcular_acumulados_fold:
  assumes "crear_dataframe precios lotes = Inr df0"
  shows "let df = calcular_acumulados df0 start;
             filas = accumulate_spec (zip precios lotes) start
         in length filas = length precios
            \<and> Precio df = map price filas
            \<and> Lotes df = map lot filas
            \<and> Lotes_Acumulados df = map cumulativeLot filas
            \<and> Costo_Acumulado df = map cumulativeCost filas
            \<and> Break_Even df = map breakEven filas
            \<and> Flotante df = map floatingValue filas
            \<and> Puntos_de_salida df = map distanceToBreakEven filas
            \<and> Ganancia_Potencial df = map potentialProfit filas
            \<and> (\<forall>i < length precios.
                  Lotes_Acumulados df ! i = sum_list (take (Suc i) lotes)
                  \<and> Costo_Acumulado df ! i
                      = sum_list (take (Suc i) (map2 (\<lambda>p l. p * l * 100) precios lotes)))"
proof -
  from assms have len: "length precios = length lotes"
    and df0: "df0 = \<lparr>Precio = precios, Lotes = lotes\<rparr>"
    by (auto simp: crear_dataframe_def split: if_splits)
  note e = accumulate_desde_entradas [OF len, of start 0 0]
  note a = accumulate_desde_acumulados [OF len, of start 0 0]
  note b = accumulate_desde_break_even [OF len, of start 0 0]
  note d = accumulate_desde_derivados [OF len, of start 0 0]
  have sums: "cumsum lotes ! i = sum_list (take (Suc i) lotes)
      \<and> cumsum (map2 (\<lambda>p l. p * l * LOTES_A_UNIDADES) precios lotes) ! i
          = sum_list (take (Suc i) (map2 (\<lambda>p l. p * l * 100) precios lotes))"
    if "i < length precios" for i
    using that len by (simp add: cumsum_def cumsum_desde_nth LOTES_A_UNIDADES_def)
  show ?thesis
    unfolding Let_def calcular_acumulados_def accumulate_spec_def
    using e a b d sums
    by (simp add: df0 cumsum_def accumulate_desde_length len)
qed

theorem calcular_acumulados_fold_witness:
  "crear_dataframe [100, 95] [1, 2] = Inr \<lparr>Precio = [100, 95], Lotes = [1, 2]\<rparr>
   \<and> Lotes_Acumulados (calcular_acumulados \<lparr>Precio = [100, 95], Lotes = [1, 2]\<rparr> 100) = [1, 3]
   \<and> Costo_Acumulado (calcular_acumulados \<lparr>Precio = [100, 95], Lotes = [1, 2]\<rparr> 100)
       = [10000, 29000]
   \<and> Break_Even (calcular_acumulados \<lparr>Precio = [100, 95], Lotes = [1, 2]\<rparr> 100)
       = [Some 100, Some (290 / 3)]
   \<and> Ganancia_Potencial (calcular_acumulados \<lparr>Precio = [100, 95], Lotes = [1, 2]\<rparr> 100)
       = [Some 0, Some 1000]"
  using calcular_acumulados_fold [of "[100, 95]" "[1, 2]" "\<lparr>Precio = [100, 95], Lotes = [1, 2]\<rparr>" 100]
  by (simp add: crear_dataframe_def accumulate_spec_def fila_de_def Let_def)

lemma generar_precios_last:
  assumes "0 < paso" "0 \<le> t" "generar_precios s t paso = Inr ps"
  shows "ps \<noteq> [] \<and> last ps = s - of_int (t div paso * paso)"
proof -
  have nn: "0 \<le> t div paso"
    using assms by (simp add: pos_imp_zdiv_nonneg_iff)
  have len: "length ps = nat (t div paso + 1)"
    using generar_precios_nth(1) [OF assms] .
  then have ne: "ps \<noteq> []" using nn by auto
  have "last ps = ps ! (length ps - 1)"
    using ne by (simp add: last_conv_nth)
  also have "\<dots> = s - of_nat (length ps - 1) * of_int paso"
    using generar_precios_nth(2) [OF assms, of "length ps - 1"] ne by simp
  also have "of_nat (length ps - 1) = (of_int (t div paso) :: rat)"
    using len nn by (simp add: nat_add_distrib)
  finally show ?thesis using ne by simp
qed

lemma length_asignar_lotes: "length (asignar_lotes s ps) = length ps"
  by (simp add: asignar_lotes_map)

lemma Precio_redondeado:
  "Precio (redondear_columnas (calcular_acumulados df s)) = map (redondear 2) (Precio df)"
  by (simp add: redondear_columnas_def calcular_acumulados_def Let_def)

lemma validar_redondeado:
  "ps \<noteq> [] \<Longrightarrow>
   validar_precio_final
     (redondear_columnas (calcular_acumulados \<lparr>Precio = ps, Lotes = ls\<rparr> s)) e
     = (if redondear 2 (last ps) \<noteq> e
        then Inr (False, [Error_precio_final (redondear 2 (last ps)) e])
        else Inr (True, []))"
  unfolding validar_precio_final_def Let_def Precio_redondeado
  by (simp add: last_map)

lemma main_con_eq:
  assumes "generar_precios s t paso = Inr ps"
  shows "main_con t paso s =
    (case validar_precio_final
            (redondear_columnas
               (calcular_acumulados \<lparr>Precio = ps, Lotes = asignar_lotes s ps\<rparr> s))
            (s - of_int t) of
       Inl e \<Rightarrow> Inl e
     | Inr (es_valido, mensajes) \<Rightarrow>
         if es_valido then
           (case resumen_final
                   (redondear_columnas
                      (calcular_acumulados \<lparr>Precio = ps, Lotes = asignar_lotes s ps\<rparr> s)) of
              Inl e \<Rightarrow> Inl e
            | Inr r \<Rightarrow>
                Inr (Muestra_resultados
                       (redondear_columnas
                          (calcular_acumulados \<lparr>Precio = ps, Lotes = asignar_lotes s ps\<rparr> s)) r))
         else Inr (Muestra_errores mensajes))"
proof -
  have c: "crear_dataframe ps (asignar_lotes s ps)
      = Inr \<lparr>Precio = ps, Lotes = asignar_lotes s ps\<rparr>"
    by (simp add: crear_dataframe_def length_asignar_lotes)
  show ?thesis
    unfolding main_con_def Let_def
    by (simp only: assms c length_asignar_lotes sum.case simp_thms if_False)
qed

lemma main_con_error:
  assumes "generar_precios s t paso = Inr ps" "ps \<noteq> []"
    and "redondear 2 (last ps) \<noteq> e" and "e = s - of_int t"
  shows "main_con t paso s = Inr (Muestra_errores [Error_precio_final (redondear 2 (last ps)) e])"
proof -
  have "validar_precio_final
     (redondear_columnas (calcular_acumulados \<lparr>Precio = ps, Lotes = asignar_lotes s ps\<rparr> s)) e
     = Inr (False, [Error_precio_final (redondear 2 (last ps)) e])"
    using validar_redondeado [OF assms(2), of "asignar_lotes s ps" s e] assms(3)
    by (simp only: if_True simp_thms)
  then show ?thesis
    unfolding main_con_eq [OF assms(1)] assms(4) [symmetric]
    by (simp only: sum.case prod.case if_False)
qed

lemma rint_of_int: "rint (of_int m) = m"
  by (simp add: rint_def Let_def)

lemma redondear_entero: "redondear n (of_int k) = of_int k"
proof -
  have "(of_int k :: rat) * 10 ^ n = of_int (k * 10 ^ n)" by simp
  then have "rint (of_int k * 10 ^ n) = k * 10 ^ n"
    by (simp only: rint_of_int)
  then show ?thesis
    by (simp add: redondear_def)
qed



subsection \<open>The validator\<close>

text \<open>
  C5. \<open>validar_precio_final\<close> returns false, with its message shown, exactly when the
  last price of the frame differs from the expected price, and true otherwise; it does
  not raise on a frame with at least one row. For the starting price 2700, the span 121
  and the step 5 the last price of the ladder is \<open>2700 - (121 div 5) * 5 = 2580\<close>, not
  \<open>2700 - 121\<close>, and the failure is reported, also by the whole computation of
  \<open>main\<close> run with this span.
\<close>

theorem validar_precio_final_exacto:
  "validar_precio_final df precio_esperado =
     (if Precio df = [] then Inl IndexError
      else if last (Precio df) = precio_esperado then Inr (True, [])
      else Inr (False, [Error_precio_final (last (Precio df)) precio_esperado]))
   \<and> (\<exists>precios. generar_precios 2700 121 5 = Inr precios
        \<and> last precios = 2700 - of_int ((121 div 5) * 5)
        \<and> last precios \<noteq> 2700 - 121
        \<and> validar_precio_final \<lparr>Precio = precios, Lotes = asignar_lotes 2700 precios\<rparr>
              (2700 - 121)
            = Inr (False, [Error_precio_final 2580 2579]))
   \<and> main_con 121 5 2700 = Inr (Muestra_errores [Error_precio_final 2580 2579])"
proof (intro conjI)
  show "validar_precio_final df precio_esperado =
     (if Precio df = [] then Inl IndexError
      else if last (Precio df) = precio_esperado then Inr (True, [])
      else Inr (False, [Error_precio_final (last (Precio df)) precio_esperado]))"
    by (simp add: validar_precio_final_def Let_def)
  obtain ps where g: "generar_precios 2700 121 5 = Inr ps"
    by (simp add: generar_precios_def)
  have l: "ps \<noteq> [] \<and> last ps = 2580"
    using generar_precios_last [OF _ _ g] by simp
  show "\<exists>precios. generar_precios 2700 121 5 = Inr precios
        \<and> last precios = 2700 - of_int ((121 div 5) * 5)
        \<and> last precios \<noteq> 2700 - 121
        \<and> validar_precio_final \<lparr>Precio = precios, Lotes = asignar_lotes 2700 precios\<rparr>
              (2700 - 121)
            = Inr (False, [Error_precio_final 2580 2579])"
    using g l by (simp add: validar_precio_final_def Let_def)
  have r: "redondear 2 (last ps) = 2580"
    using redondear_entero [of 2 2580] l by simp
  have "main_con 121 5 2700
      = Inr (Muestra_errores [Error_precio_final (redondear 2 (last ps)) 2579])"
  proof (rule main_con_error [OF g])
    show "ps \<noteq> []" using l by simp
    show "redondear 2 (last ps) \<noteq> 2579" unfolding r by simp
    show "(2579::rat) = 2700 - of_int 121" by simp
  qed
  then show "main_con 121 5 2700 = Inr (Muestra_errores [Error_precio_final 2580 2579])"
    unfolding r .
qed

subsection \<open>Rounding is monotone\<close>

lemma rint_cotas: "\<lfloor>x\<rfloor> \<le> rint x \<and> rint x \<le> \<lfloor>x\<rfloor> + 1"
  by (simp add: rint_def Let_def)

lemma rint_mono:
  assumes "x \<le> y"
  shows "rint x \<le> rint y"
proof (cases "\<lfloor>x\<rfloor> < \<lfloor>y\<rfloor>")
  case True
  then have "rint x \<le> \<lfloor>y\<rfloor>"
    using rint_cotas [of x] by linarith
  then show ?thesis
    using rint_cotas [of y] by linarith
next
  case False
  then have eq: "\<lfloor>x\<rfloor> = \<lfloor>y\<rfloor>"
    using floor_mono [OF assms] by linarith
  have "x - of_int \<lfloor>y\<rfloor> \<le> y - of_int \<lfloor>y\<rfloor>"
    using assms by simp
  then show ?thesis
    unfolding rint_def Let_def eq by auto
qed

lemma redondear_mono: "x \<le> y \<Longrightarrow> redondear n x \<le> redondear n y"
proof -
  assume "x \<le> y"
  then have "x * 10 ^ n \<le> y * 10 ^ n"
    by (simp add: mult_right_mono)
  then have "rint (x * 10 ^ n) \<le> rint (y * 10 ^ n)"
    by (rule rint_mono)
  then have "(of_int (rint (x * 10 ^ n)) :: rat) \<le> of_int (rint (y * 10 ^ n))"
    by simp
  then show ?thesis
    unfolding redondear_def by (simp add: divide_right_mono)
qed

lemma sorted_map_redondear: "sorted xs \<Longrightarrow> sorted (map (redondear n) xs)"
  by (induction xs) (auto simp: redondear_mono)


lemma upto_0_24:
  "[0..24::int] =
     [0, 1, 2, 3, 4, 5, 6, 7, 8, 9, 10, 11, 12, 13, 14, 15, 16, 17, 18, 19, 20, 21, 22, 23, 24]"
  by code_simp


subsection \<open>The ladder fed to the allocator\<close>



subsection \<open>The computation of \<open>main\<close>\<close>

lemma longitudes_calcular_acumulados:
  assumes "length (Precio df) = length (Lotes df)"
  shows "length (Lotes_Acumulados (calcular_acumulados df s)) = length (Precio df)
       \<and> length (Costo_Acumulado (calcular_acumulados df s)) = length (Precio df)
       \<and> length (Break_Even (calcular_acumulados df s)) = length (Precio df)
       \<and> length (Flotante (calcular_acumulados df s)) = length (Precio df)
       \<and> length (Puntos_de_salida (calcular_acumulados df s)) = length (Precio df)
       \<and> length (Ganancia_Potencial (calcular_acumulados df s)) = length (Precio df)"
  using assms
  by (simp add: calcular_acumulados_def Let_def cumsum_def cumsum_desde_length)

lemma longitudes_redondear_columnas:
  "length (Lotes_Acumulados (redondear_columnas df)) = length (Lotes_Acumulados df)
   \<and> length (Break_Even (redondear_columnas df)) = length (Break_Even df)
   \<and> length (Flotante (redondear_columnas df)) = length (Flotante df)
   \<and> length (Ganancia_Potencial (redondear_columnas df)) = length (Ganancia_Potencial df)"
  by (simp add: redondear_columnas_def)

lemma resumen_final_Inr:
  assumes "Break_Even df \<noteq> []" "Flotante df \<noteq> []" "Ganancia_Potencial df \<noteq> []"
    "Lotes_Acumulados df \<noteq> []"
  shows "resumen_final df =
    Inr \<lparr>break_even_final = last (Break_Even df), flotante_total = last (Flotante df),
         ganancia_potencial_total = last (Ganancia_Potencial df),
         total_lotes_acumulados = last (Lotes_Acumulados df)\<rparr>"
  using assms by (simp add: resumen_final_def iloc_ultimo_def)

lemma resumen_final_tabla:
  assumes "ps \<noteq> []" "length ps = length ls"
  shows "resumen_final (redondear_columnas (calcular_acumulados \<lparr>Precio = ps, Lotes = ls\<rparr> s)) =
    Inr \<lparr>break_even_final =
           last (Break_Even (redondear_columnas (calcular_acumulados \<lparr>Precio = ps, Lotes = ls\<rparr> s))),
         flotante_total =
           last (Flotante (redondear_columnas (calcular_acumulados \<lparr>Precio = ps, Lotes = ls\<rparr> s))),
         ganancia_potencial_total =
           last (Ganancia_Potencial
                  (redondear_columnas (calcular_acumulados \<lparr>Precio = ps, Lotes = ls\<rparr> s))),
         total_lotes_acumulados =
           last (Lotes_Acumulados
                  (redondear_columnas (calcular_acumulados \<lparr>Precio = ps, Lotes = ls\<rparr> s)))\<rparr>"
proof (rule resumen_final_Inr)
  let ?base = "\<lparr>Precio = ps, Lotes = ls\<rparr>"
  let ?df = "redondear_columnas (calcular_acumulados ?base s)"
  have l: "length (Precio ?base) = length (Lotes ?base)" using assms by simp
  have c: "length (Break_Even ?df) = length ps \<and> length (Flotante ?df) = length ps
      \<and> length (Ganancia_Potencial ?df) = length ps
      \<and> length (Lotes_Acumulados ?df) = length ps"
    using longitudes_calcular_acumulados [OF l, of s]
      longitudes_redondear_columnas [of "calcular_acumulados ?base s"]
    by simp
  have n: "0 < length ps" using assms(1) by simp
  show "Break_Even ?df \<noteq> []" using c n by auto
  show "Flotante ?df \<noteq> []" using c n by auto
  show "Ganancia_Potencial ?df \<noteq> []" using c n by auto
  show "Lotes_Acumulados ?df \<noteq> []" using c n by auto
qed

lemma main_con_total:
  assumes "0 < paso" "0 \<le> t"
  shows "\<exists>p. main_con t paso s = Inr p"
proof -
  obtain ps where g: "generar_precios s t paso = Inr ps"
    using assms by (simp add: generar_precios_def)
  have ne: "ps \<noteq> []"
    using generar_precios_last [OF assms g] by simp
  let ?df = "redondear_columnas (calcular_acumulados \<lparr>Precio = ps, Lotes = asignar_lotes s ps\<rparr> s)"
  obtain r where r: "resumen_final ?df = Inr r"
    using resumen_final_tabla [OF ne, of "asignar_lotes s ps" s]
    by (simp only: length_asignar_lotes)
  show ?thesis
  proof (cases "redondear 2 (last ps) = s - of_int t")
    case True
    have "validar_precio_final ?df (s - of_int t) = Inr (True, [])"
      unfolding validar_redondeado [OF ne] using True by (simp only: simp_thms if_False)
    then have "main_con t paso s = Inr (Muestra_resultados ?df r)"
      unfolding main_con_eq [OF g] using r by (simp only: sum.case prod.case if_True)
    then show ?thesis by blast
  next
    case False
    then show ?thesis
      using main_con_error [OF g ne False refl] by blast
  qed
qed

lemma main_resultados:
  assumes "main s = Inr (Muestra_resultados df r)"
  shows "\<exists>ps. generar_precios s TOTAL_UNIDADES PASO = Inr ps
     \<and> df = redondear_columnas (calcular_acumulados \<lparr>Precio = ps, Lotes = asignar_lotes s ps\<rparr> s)
     \<and> resumen_final df = Inr r
     \<and> redondear 2 (last ps) = s - of_int TOTAL_UNIDADES"
proof -
  obtain ps where g: "generar_precios s TOTAL_UNIDADES PASO = Inr ps"
    by (simp add: generar_precios_escalera)
  have ne: "ps \<noteq> []"
    using generar_precios_last [OF _ _ g] by (simp add: TOTAL_UNIDADES_def PASO_def)
  let ?df = "redondear_columnas (calcular_acumulados \<lparr>Precio = ps, Lotes = asignar_lotes s ps\<rparr> s)"
  have m: "main_con TOTAL_UNIDADES PASO s = Inr (Muestra_resultados df r)"
    using assms by (simp only: main_def)
  show ?thesis
  proof (cases "redondear 2 (last ps) = s - of_int TOTAL_UNIDADES")
    case True
    have v: "validar_precio_final ?df (s - of_int TOTAL_UNIDADES) = Inr (True, [])"
      unfolding validar_redondeado [OF ne] using True by (simp only: simp_thms if_False)
    have "(case resumen_final ?df of Inl e \<Rightarrow> Inl e | Inr r' \<Rightarrow> Inr (Muestra_resultados ?df r'))
        = Inr (Muestra_resultados df r)"
      using m unfolding main_con_eq [OF g] v by (simp only: sum.case prod.case if_True)
    then have "df = ?df \<and> resumen_final ?df = Inr r"
      by (cases "resumen_final ?df") simp_all
    then show ?thesis
      using g True by blast
  next
    case False
    have "main_con TOTAL_UNIDADES PASO s
      = Inr (Muestra_errores [Error_precio_final (redondear 2 (last ps)) (s - of_int TOTAL_UNIDADES)])"
      using main_con_error [OF g ne False refl] .
    with m show ?thesis by simp
  qed
qed


subsection \<open>The cumulative cost is bounded by the cumulative lots\<close>




subsection \<open>Division by zero in the accumulator\<close>

lemma Break_Even_nth:
  assumes "length ps = length ls" "i < length ps"
  shows "Break_Even (calcular_acumulados \<lparr>Precio = ps, Lotes = ls\<rparr> s) ! i
     = dividir (Costo_Acumulado (calcular_acumulados \<lparr>Precio = ps, Lotes = ls\<rparr> s) ! i)
         (Lotes_Acumulados (calcular_acumulados \<lparr>Precio = ps, Lotes = ls\<rparr> s) ! i
            * LOTES_A_UNIDADES)"
  using assms
  by (simp add: calcular_acumulados_def Let_def cumsum_def cumsum_desde_length)

lemma cumsum_cero:
  assumes "\<forall>l \<in> set ls. (0::rat) \<le> l" "i < length ls" "cumsum ls ! i = 0"
  shows "ls ! 0 = 0"
proof -
  have nn: "\<forall>l \<in> set (take (Suc i) ls). 0 \<le> l"
    using assms(1) by (meson in_set_takeD)
  have "sum_list (take (Suc i) ls) = 0"
    using assms(2,3) by (simp add: cumsum_def cumsum_desde_nth)
  then have "\<forall>l \<in> set (take (Suc i) ls). l = 0"
    using nn by (simp add: sum_list_nonneg_eq_0_iff)
  moreover have "ls ! 0 \<in> set (take (Suc i) ls)"
    using assms(2) by (cases ls) simp_all
  ultimately show ?thesis by blast
qed

text \<open>
  C6. The break-even of a row is undefined exactly when the cumulative lot of the row
  is zero, and is the cumulative cost divided by the cumulative units otherwise; when no
  lot is negative this happens only if the first lot is zero. The row is part of the
  frame that \<open>calcular_acumulados\<close> returns, which has a break-even entry for every
  input row. Nothing else fails: for a positive step and a span that is not negative,
  \<open>generar_precios\<close> and the whole computation of \<open>main\<close> return a result, for every
  starting price.
\<close>

theorem break_even_indefinido:
  "(crear_dataframe precios lotes = Inr tabla \<longrightarrow>
      length (Break_Even (calcular_acumulados tabla start)) = length precios
      \<and> (\<forall>i < length precios.
            (Break_Even (calcular_acumulados tabla start) ! i = None
               \<longleftrightarrow> Lotes_Acumulados (calcular_acumulados tabla start) ! i = 0)
            \<and> (Lotes_Acumulados (calcular_acumulados tabla start) ! i \<noteq> 0 \<longrightarrow>
                 Break_Even (calcular_acumulados tabla start) ! i
                   = Some (Costo_Acumulado (calcular_acumulados tabla start) ! i
                           / (Lotes_Acumulados (calcular_acumulados tabla start) ! i * 100)))
            \<and> ((\<forall>l \<in> set lotes. 0 \<le> l)
                 \<and> Break_Even (calcular_acumulados tabla start) ! i = None
                 \<longrightarrow> lotes ! 0 = 0)))
   \<and> (0 < paso \<and> 0 \<le> total_unidades \<longrightarrow>
        (\<exists>precios. generar_precios start total_unidades paso = Inr precios)
        \<and> (\<exists>p. main_con total_unidades paso start = Inr p))
   \<and> (\<exists>p. main start = Inr p)"
proof (intro conjI impI)
  {
    assume "crear_dataframe precios lotes = Inr tabla"
    then have len: "length precios = length lotes"
      and tabla: "tabla = \<lparr>Precio = precios, Lotes = lotes\<rparr>"
      by (auto simp: crear_dataframe_def split: if_splits)
    show "length (Break_Even (calcular_acumulados tabla start)) = length precios"
      using longitudes_calcular_acumulados [of tabla start] len by (simp add: tabla)
    show "\<forall>i < length precios.
            (Break_Even (calcular_acumulados tabla start) ! i = None
               \<longleftrightarrow> Lotes_Acumulados (calcular_acumulados tabla start) ! i = 0)
            \<and> (Lotes_Acumulados (calcular_acumulados tabla start) ! i \<noteq> 0 \<longrightarrow>
                 Break_Even (calcular_acumulados tabla start) ! i
                   = Some (Costo_Acumulado (calcular_acumulados tabla start) ! i
                           / (Lotes_Acumulados (calcular_acumulados tabla start) ! i * 100)))
            \<and> ((\<forall>l \<in> set lotes. 0 \<le> l)
                 \<and> Break_Even (calcular_acumulados tabla start) ! i = None
                 \<longrightarrow> lotes ! 0 = 0)"
    proof (intro allI impI)
      fix i assume i: "i < length precios"
      note be = Break_Even_nth [OF len i, of start]
      have la: "Lotes_Acumulados (calcular_acumulados tabla start) = cumsum lotes"
        by (simp add: calcular_acumulados_def Let_def tabla)
      have a: "Break_Even (calcular_acumulados tabla start) ! i = None
               \<longleftrightarrow> Lotes_Acumulados (calcular_acumulados tabla start) ! i = 0"
        unfolding tabla be by (simp add: dividir_def LOTES_A_UNIDADES_def)
      have b: "Lotes_Acumulados (calcular_acumulados tabla start) ! i \<noteq> 0 \<longrightarrow>
                 Break_Even (calcular_acumulados tabla start) ! i
                   = Some (Costo_Acumulado (calcular_acumulados tabla start) ! i
                           / (Lotes_Acumulados (calcular_acumulados tabla start) ! i * 100))"
        unfolding tabla be by (simp add: dividir_def LOTES_A_UNIDADES_def)
      have c: "(\<forall>l \<in> set lotes. 0 \<le> l)
                 \<and> Break_Even (calcular_acumulados tabla start) ! i = None
                 \<longrightarrow> lotes ! 0 = 0"
        using a cumsum_cero [of lotes i] i len unfolding la by auto
      from a b c show "(Break_Even (calcular_acumulados tabla start) ! i = None
               \<longleftrightarrow> Lotes_Acumulados (calcular_acumulados tabla start) ! i = 0)
            \<and> (Lotes_Acumulados (calcular_acumulados tabla start) ! i \<noteq> 0 \<longrightarrow>
                 Break_Even (calcular_acumulados tabla start) ! i
                   = Some (Costo_Acumulado (calcular_acumulados tabla start) ! i
                           / (Lotes_Acumulados (calcular_acumulados tabla start) ! i * 100)))
            \<and> ((\<forall>l \<in> set lotes. 0 \<le> l)
                 \<and> Break_Even (calcular_acumulados tabla start) ! i = None
                 \<longrightarrow> lotes ! 0 = 0)"
        by blast
    qed
  }
  {
    assume h: "0 < paso \<and> 0 \<le> total_unidades"
    show "\<exists>precios. generar_precios start total_unidades paso = Inr precios"
      using h by (simp add: generar_precios_def)
    show "\<exists>p. main_con total_unidades paso start = Inr p"
      using h main_con_total by blast
  }
  show "\<exists>p. main start = Inr p"
    unfolding main_def using main_con_total [of PASO TOTAL_UNIDADES start]
    by (simp add: PASO_def TOTAL_UNIDADES_def)
qed

theorem break_even_indefinido_witness:
  "crear_dataframe [100, 95, 90] [0, 0, 2] = Inr \<lparr>Precio = [100, 95, 90], Lotes = [0, 0, 2]\<rparr>
   \<and> Break_Even (calcular_acumulados \<lparr>Precio = [100, 95, 90], Lotes = [0, 0, 2]\<rparr> 100)
       = [None, None, Some 90]
   \<and> (0::int) < 5 \<and> (0::int) \<le> 120
   \<and> (\<exists>p. main_con 120 5 100 = Inr p)"
proof -
  have c: "crear_dataframe [100, 95, 90] [0, 0, 2]
      = Inr \<lparr>Precio = [100, 95, 90], Lotes = [0, 0, 2]\<rparr>"
    by (simp add: crear_dataframe_def)
  have b: "Break_Even (calcular_acumulados \<lparr>Precio = [100, 95, 90], Lotes = [0, 0, 2]\<rparr> 100)
       = [None, None, Some 90]"
    by (simp add: calcular_acumulados_def Let_def cumsum_def dividir_def LOTES_A_UNIDADES_def)
  show ?thesis
    using break_even_indefinido [where precios = "[100, 95, 90]" and lotes = "[0, 0, 2]"
        and tabla = "\<lparr>Precio = [100, 95, 90], Lotes = [0, 0, 2]\<rparr>"
        and start = 100 and paso = 5 and total_unidades = 120] c b
    by simp
qed

subsection \<open>Cumulative lots\<close>

lemma asignar_lotes_nonneg: "\<forall>l \<in> set (asignar_lotes s ps). 0 \<le> l"
  using DIVISOR_LOTE_pos by (auto simp: asignar_lotes_map valor_rama_nonneg)

lemma cumsum_desde_sorted:
  "\<forall>x \<in> set xs. 0 \<le> x \<Longrightarrow>
   sorted (cumsum_desde acc xs) \<and> (\<forall>y \<in> set (cumsum_desde acc xs). acc \<le> y)"
proof (induction xs arbitrary: acc)
  case Nil
  then show ?case by simp
next
  case (Cons x xs)
  have x: "0 \<le> x" using Cons.prems by simp
  have ih: "sorted (cumsum_desde (acc + x) xs)
      \<and> (\<forall>y \<in> set (cumsum_desde (acc + x) xs). acc + x \<le> y)"
    using Cons.IH [of "acc + x"] Cons.prems by simp
  then show ?case using x by fastforce
qed

lemma Lotes_Acumulados_calcular:
  "Lotes_Acumulados (calcular_acumulados df s) = cumsum (Lotes df)"
  by (simp add: calcular_acumulados_def Let_def)

lemma Lotes_Acumulados_redondeado:
  "Lotes_Acumulados (redondear_columnas df) = map (redondear 4) (Lotes_Acumulados df)"
  by (simp add: redondear_columnas_def)

lemma main_muestra:
  assumes "generar_precios s TOTAL_UNIDADES PASO = Inr ps"
    and "redondear 2 (last ps) = s - of_int TOTAL_UNIDADES"
  shows "main s =
    Inr (Muestra_resultados
      (redondear_columnas (calcular_acumulados \<lparr>Precio = ps, Lotes = asignar_lotes s ps\<rparr> s))
      \<lparr>break_even_final =
         last (Break_Even (redondear_columnas
           (calcular_acumulados \<lparr>Precio = ps, Lotes = asignar_lotes s ps\<rparr> s))),
       flotante_total =
         last (Flotante (redondear_columnas
           (calcular_acumulados \<lparr>Precio = ps, Lotes = asignar_lotes s ps\<rparr> s))),
       ganancia_potencial_total =
         last (Ganancia_Potencial (redondear_columnas
           (calcular_acumulados \<lparr>Precio = ps, Lotes = asignar_lotes s ps\<rparr> s))),
       total_lotes_acumulados =
         last (Lotes_Acumulados (redondear_columnas
           (calcular_acumulados \<lparr>Precio = ps, Lotes = asignar_lotes s ps\<rparr> s)))\<rparr>)"
proof -
  have ne: "ps \<noteq> []"
    using generar_precios_last [OF _ _ assms(1)] by (simp add: TOTAL_UNIDADES_def PASO_def)
  have v: "validar_precio_final
      (redondear_columnas (calcular_acumulados \<lparr>Precio = ps, Lotes = asignar_lotes s ps\<rparr> s))
      (s - of_int TOTAL_UNIDADES) = Inr (True, [])"
    unfolding validar_redondeado [OF ne] using assms(2) by (simp only: simp_thms if_False)
  have l: "length ps = length (asignar_lotes s ps)"
    by (simp only: length_asignar_lotes)
  show ?thesis
    unfolding main_def main_con_eq [OF assms(1)] v resumen_final_tabla [OF ne l]
    by (simp only: sum.case prod.case if_True)
qed

lemma escalera_2700:
  "generar_precios 2700 TOTAL_UNIDADES PASO =
     Inr [2700, 2695, 2690, 2685, 2680, 2675, 2670, 2665, 2660, 2655, 2650, 2645, 2640, 2635,
          2630, 2625, 2620, 2615, 2610, 2605, 2600, 2595, 2590, 2585, 2580]"
  by (simp add: generar_precios_escalera upto_0_24)

text \<open>
  C7. For every starting price the cumulative lots of the rows that the pipeline
  computes (the ladder of step 5 and span 120, its lots, the accumulator) do not
  decrease from a row to the next, because no lot of \<open>asignar_lotes\<close> is negative; the
  same holds for the rounded column of the frame that \<open>main\<close> shows.
\<close>

theorem lotes_acumulados_no_decrecen:
  "(generar_precios start TOTAL_UNIDADES PASO = Inr precios
      \<and> crear_dataframe precios (asignar_lotes start precios) = Inr tabla
    \<longrightarrow> length (Lotes_Acumulados (calcular_acumulados tabla start)) = 25
        \<and> (\<forall>i. Suc i < 25 \<longrightarrow>
              Lotes_Acumulados (calcular_acumulados tabla start) ! i
                \<le> Lotes_Acumulados (calcular_acumulados tabla start) ! Suc i))
   \<and> (main start = Inr (Muestra_resultados df r)
    \<longrightarrow> length (Lotes_Acumulados df) = 25
        \<and> (\<forall>i. Suc i < 25 \<longrightarrow> Lotes_Acumulados df ! i \<le> Lotes_Acumulados df ! Suc i))"
proof (intro conjI impI)
  have s: "sorted (cumsum (asignar_lotes start ps))" for ps
    unfolding cumsum_def using cumsum_desde_sorted [OF asignar_lotes_nonneg] by blast
  have len: "length ps = 25" if "generar_precios start TOTAL_UNIDADES PASO = Inr ps" for ps
    using that by (auto simp: generar_precios_escalera upto_0_24)
  {
    assume h: "generar_precios start TOTAL_UNIDADES PASO = Inr precios
      \<and> crear_dataframe precios (asignar_lotes start precios) = Inr tabla"
    then have tabla: "tabla = \<lparr>Precio = precios, Lotes = asignar_lotes start precios\<rparr>"
      by (auto simp: crear_dataframe_def split: if_splits)
    have la: "Lotes_Acumulados (calcular_acumulados tabla start) = cumsum (asignar_lotes start precios)"
      by (simp add: Lotes_Acumulados_calcular tabla)
    show l25: "length (Lotes_Acumulados (calcular_acumulados tabla start)) = 25"
      using len h by (simp add: la cumsum_def cumsum_desde_length length_asignar_lotes)
    show "\<forall>i. Suc i < 25 \<longrightarrow>
              Lotes_Acumulados (calcular_acumulados tabla start) ! i
                \<le> Lotes_Acumulados (calcular_acumulados tabla start) ! Suc i"
      using s [of precios] l25 unfolding la
      by (simp add: sorted_iff_nth_Suc)
  }
  {
    assume m: "main start = Inr (Muestra_resultados df r)"
    obtain ps where g: "generar_precios start TOTAL_UNIDADES PASO = Inr ps"
      and df: "df = redondear_columnas
          (calcular_acumulados \<lparr>Precio = ps, Lotes = asignar_lotes start ps\<rparr> start)"
      using main_resultados [OF m] by blast
    have la: "Lotes_Acumulados df = map (redondear 4) (cumsum (asignar_lotes start ps))"
      by (simp add: df Lotes_Acumulados_redondeado Lotes_Acumulados_calcular)
    show l25: "length (Lotes_Acumulados df) = 25"
      using len [OF g] by (simp add: la cumsum_def cumsum_desde_length length_asignar_lotes)
    have "sorted (Lotes_Acumulados df)"
      unfolding la using s by (rule sorted_map_redondear)
    then show "\<forall>i. Suc i < 25 \<longrightarrow> Lotes_Acumulados df ! i \<le> Lotes_Acumulados df ! Suc i"
      using l25 by (simp add: sorted_iff_nth_Suc)
  }
qed


theorem lotes_acumulados_no_decrecen_witness:
  "(\<exists>precios tabla. generar_precios 2700 TOTAL_UNIDADES PASO = Inr precios
       \<and> crear_dataframe precios (asignar_lotes 2700 precios) = Inr tabla
       \<and> length (Lotes_Acumulados (calcular_acumulados tabla 2700)) = 25
       \<and> Lotes_Acumulados (calcular_acumulados tabla 2700) ! 3
           \<le> Lotes_Acumulados (calcular_acumulados tabla 2700) ! 4)
   \<and> (\<exists>df r. main 2700 = Inr (Muestra_resultados df r)
       \<and> length (Lotes_Acumulados df) = 25
       \<and> Lotes_Acumulados df ! 3 \<le> Lotes_Acumulados df ! 4)"
proof -
  let ?ps = "[2700, 2695, 2690, 2685, 2680, 2675, 2670, 2665, 2660, 2655, 2650, 2645, 2640,
          2635, 2630, 2625, 2620, 2615, 2610, 2605, 2600, 2595, 2590, 2585, 2580] :: rat list"
  let ?tabla = "\<lparr>Precio = ?ps, Lotes = asignar_lotes 2700 ?ps\<rparr>"
  let ?df = "redondear_columnas (calcular_acumulados ?tabla 2700)"
  have g: "generar_precios 2700 TOTAL_UNIDADES PASO = Inr ?ps"
    by (rule escalera_2700)
  have c: "crear_dataframe ?ps (asignar_lotes 2700 ?ps) = Inr ?tabla"
    by (simp add: crear_dataframe_def length_asignar_lotes)
  have r: "redondear 2 (last ?ps) = 2700 - of_int TOTAL_UNIDADES"
    using redondear_entero [of 2 2580] by (simp add: TOTAL_UNIDADES_def)
  let ?res = "\<lparr>break_even_final = last (Break_Even ?df),
       flotante_total = last (Flotante ?df),
       ganancia_potencial_total = last (Ganancia_Potencial ?df),
       total_lotes_acumulados = last (Lotes_Acumulados ?df)\<rparr>"
  have m: "main 2700 = Inr (Muestra_resultados ?df ?res)"
    by (rule main_muestra [OF g r])
  note t = lotes_acumulados_no_decrecen [where start = 2700 and precios = ?ps and tabla = ?tabla and df = ?df
      and r = ?res]
  have a0: "length (Lotes_Acumulados (calcular_acumulados ?tabla 2700)) = 25
       \<and> (\<forall>i. Suc i < 25 \<longrightarrow>
              Lotes_Acumulados (calcular_acumulados ?tabla 2700) ! i
                \<le> Lotes_Acumulados (calcular_acumulados ?tabla 2700) ! Suc i)"
    using t g c by blast
  have b0: "length (Lotes_Acumulados ?df) = 25
       \<and> (\<forall>i. Suc i < 25 \<longrightarrow> Lotes_Acumulados ?df ! i \<le> Lotes_Acumulados ?df ! Suc i)"
    using t m by blast
  have s34: "Suc 3 < 25 \<and> Suc 3 = 4" by simp
  have a: "length (Lotes_Acumulados (calcular_acumulados ?tabla 2700)) = 25
       \<and> Lotes_Acumulados (calcular_acumulados ?tabla 2700) ! 3
           \<le> Lotes_Acumulados (calcular_acumulados ?tabla 2700) ! 4"
    using a0 s34 by metis
  have b: "length (Lotes_Acumulados ?df) = 25
       \<and> Lotes_Acumulados ?df ! 3 \<le> Lotes_Acumulados ?df ! 4"
    using b0 s34 by metis
  show ?thesis
    using g c a m b by blast
qed




subsection \<open>Break-even and potential profit\<close>



subsection \<open>Rounding before validation\<close>

lemma rint_cercano:
  assumes "of_int z - 1 / 2 < x" "x < of_int z + 1 / 2"
  shows "rint x = z"
proof (cases "of_int z \<le> x")
  case True
  have "\<lfloor>x\<rfloor> = z"
    using True assms(2) by (intro floor_unique) simp_all
  then show ?thesis
    using assms(2) by (simp add: rint_def Let_def)
next
  case False
  have f: "\<lfloor>x\<rfloor> = z - 1"
    using False assms(1) by (intro floor_unique) simp_all
  show ?thesis
    using assms(1) False unfolding rint_def Let_def f by simp
qed

lemma redondear_2580_123: "redondear 2 (2700.123 - 120) = 2580.12"
proof -
  have "rint ((2700.123 - 120) * 10 ^ 2) = 258012"
    by (rule rint_cercano) simp_all
  then show ?thesis
    by (simp add: redondear_def)
qed

lemma main_2700_123: "main 2700.123 = Inr (Muestra_errores [Error_precio_final 2580.12 2580.123])"
proof -
  obtain ps where g: "generar_precios 2700.123 TOTAL_UNIDADES PASO = Inr ps"
    by (simp add: generar_precios_escalera)
  have l: "ps \<noteq> [] \<and> last ps = 2700.123 - 120"
    using generar_precios_last [OF _ _ g] by (simp add: TOTAL_UNIDADES_def PASO_def)
  have r: "redondear 2 (last ps) = 2580.12"
    unfolding conjunct2 [OF l] by (rule redondear_2580_123)
  have "main_con TOTAL_UNIDADES PASO 2700.123
      = Inr (Muestra_errores [Error_precio_final (redondear 2 (last ps)) 2580.123])"
  proof (rule main_con_error [OF g])
    show "ps \<noteq> []" using l by simp
    show "redondear 2 (last ps) \<noteq> 2580.123" unfolding r by simp
    show "(2580.123::rat) = 2700.123 - of_int TOTAL_UNIDADES" by (simp add: TOTAL_UNIDADES_def)
  qed
  then show ?thesis
    unfolding r main_def .
qed

lemma validar_sin_redondeo_2700_123: assumes "generar_precios 2700.123 TOTAL_UNIDADES PASO = Inr ps"
  shows "last ps = 2700.123 - 120
       \<and> validar_precio_final
            (calcular_acumulados \<lparr>Precio = ps, Lotes = asignar_lotes 2700.123 ps\<rparr> 2700.123)
            (2700.123 - of_int TOTAL_UNIDADES) = Inr (True, [])"
proof -
  have l: "ps \<noteq> [] \<and> last ps = 2700.123 - 120"
    using generar_precios_last [OF _ _ assms] by (simp add: TOTAL_UNIDADES_def PASO_def)
  have p: "Precio (calcular_acumulados \<lparr>Precio = ps, Lotes = asignar_lotes 2700.123 ps\<rparr> 2700.123) = ps"
    by (simp add: calcular_acumulados_def Let_def)
  show ?thesis
    unfolding validar_precio_final_def Let_def p
    using l by (simp add: TOTAL_UNIDADES_def)
qed


lemma lotes_2700:
  "asignar_lotes 2700 [2700, 2695, 2690, 2685, 2680, 2675, 2670, 2665, 2660, 2655, 2650, 2645, 2640,
          2635, 2630, 2625, 2620, 2615, 2610, 2605, 2600, 2595, 2590, 2585, 2580]
   = map (\<lambda>l. l / 1.5932) [0.5, 0.5, 0.5, 0.5, 0, 2, 2, 0.625, 0.625, 0.625, 0.625, 0, 6,
        2, 2, 2, 2, 2, 2, 3.375, 3.375, 3.375, 3.375, 3.375, 3.375]"
  by (simp add: asignar_lotes_map rama_def DIVISOR_LOTE_def)

lemma cumsum_desde_Nil: "cumsum_desde acc xs = [] \<longleftrightarrow> xs = []"
  by (cases xs) simp_all

lemma last_cumsum_desde: "xs \<noteq> [] \<Longrightarrow> last (cumsum_desde acc xs) = acc + sum_list xs"
  by (induction xs arbitrary: acc) (auto simp: add.assoc cumsum_desde_Nil)

lemma total_2700:
  "last (cumsum (asignar_lotes 2700 [2700, 2695, 2690, 2685, 2680, 2675, 2670, 2665, 2660, 2655, 2650, 2645, 2640,
          2635, 2630, 2625, 2620, 2615, 2610, 2605, 2600, 2595, 2590, 2585, 2580])) = 46.75 / 1.5932"
  unfolding lotes_2700 cumsum_def
  by (simp add: last_cumsum_desde)

lemma total_2700_no_redondo: "(46.75 / 1.5932 :: rat) \<noteq> 29.3435"
  by simp


lemma total_2700_redondeado: "redondear 4 (46.75 / 1.5932) = 29.3435"
proof -
  have "rint (46.75 / 1.5932 * 10 ^ 4) = 293435"
    by (rule rint_cercano) simp_all
  then show ?thesis
    by (simp add: redondear_def)
qed

text \<open>
  C8. The claim is that the rounding of the columns serves the display only, so that
  the validation of the final price and the four scalars of the summary come from the
  values that are not rounded. \<open>main\<close> rounds the columns of the frame in place and then
  validates and reads the summary from the rounded frame. For the starting price
  \<open>2700.123\<close> the ladder ends at \<open>2580.123 = 2700.123 - 120\<close> and the validation of the
  frame that is not rounded succeeds, but \<open>main\<close> compares the rounded \<open>2580.12\<close> with
  \<open>2580.123\<close> and reports the final-price error. For the starting price \<open>2700\<close> the
  total of lots in the summary is the rounded \<open>29.3435\<close>, not the computed
  \<open>46.75 / 1.5932\<close>.
\<close>

theorem main_valida_redondeado:
  "main 2700.123 = Inr (Muestra_errores [Error_precio_final 2580.12 2580.123])
   \<and> (\<exists>ps. generar_precios 2700.123 TOTAL_UNIDADES PASO = Inr ps
        \<and> last ps = 2700.123 - 120
        \<and> validar_precio_final
             (calcular_acumulados \<lparr>Precio = ps, Lotes = asignar_lotes 2700.123 ps\<rparr> 2700.123)
             (2700.123 - of_int TOTAL_UNIDADES) = Inr (True, []))
   \<and> (\<exists>ps df r. generar_precios 2700 TOTAL_UNIDADES PASO = Inr ps
        \<and> main 2700 = Inr (Muestra_resultados df r)
        \<and> total_lotes_acumulados r = 29.3435
        \<and> last (Lotes_Acumulados
                  (calcular_acumulados \<lparr>Precio = ps, Lotes = asignar_lotes 2700 ps\<rparr> 2700))
            = 46.75 / 1.5932
        \<and> (46.75 / 1.5932 :: rat) \<noteq> 29.3435)"
proof (intro conjI)
  show "main 2700.123 = Inr (Muestra_errores [Error_precio_final 2580.12 2580.123])"
    by (rule main_2700_123)
  obtain qs where q: "generar_precios 2700.123 TOTAL_UNIDADES PASO = Inr qs"
    by (simp add: generar_precios_escalera)
  show "\<exists>ps. generar_precios 2700.123 TOTAL_UNIDADES PASO = Inr ps
        \<and> last ps = 2700.123 - 120
        \<and> validar_precio_final
             (calcular_acumulados \<lparr>Precio = ps, Lotes = asignar_lotes 2700.123 ps\<rparr> 2700.123)
             (2700.123 - of_int TOTAL_UNIDADES) = Inr (True, [])"
    using q validar_sin_redondeo_2700_123 [OF q] by blast
  let ?ps = "[2700, 2695, 2690, 2685, 2680, 2675, 2670, 2665, 2660, 2655, 2650, 2645, 2640,
          2635, 2630, 2625, 2620, 2615, 2610, 2605, 2600, 2595, 2590, 2585, 2580] :: rat list"
  let ?tabla = "\<lparr>Precio = ?ps, Lotes = asignar_lotes 2700 ?ps\<rparr>"
  let ?df = "redondear_columnas (calcular_acumulados ?tabla 2700)"
  let ?res = "\<lparr>break_even_final = last (Break_Even ?df),
       flotante_total = last (Flotante ?df),
       ganancia_potencial_total = last (Ganancia_Potencial ?df),
       total_lotes_acumulados = last (Lotes_Acumulados ?df)\<rparr>"
  have g: "generar_precios 2700 TOTAL_UNIDADES PASO = Inr ?ps"
    by (rule escalera_2700)
  have r: "redondear 2 (last ?ps) = 2700 - of_int TOTAL_UNIDADES"
    using redondear_entero [of 2 2580] by (simp add: TOTAL_UNIDADES_def)
  have m: "main 2700 = Inr (Muestra_resultados ?df ?res)"
    by (rule main_muestra [OF g r])
  have u: "last (Lotes_Acumulados (calcular_acumulados ?tabla 2700)) = 46.75 / 1.5932"
    unfolding Lotes_Acumulados_calcular using total_2700 by simp
  have ne: "Lotes_Acumulados (calcular_acumulados ?tabla 2700) \<noteq> []"
    by (simp add: Lotes_Acumulados_calcular cumsum_def cumsum_desde_Nil asignar_lotes_map)
  have "total_lotes_acumulados ?res
      = redondear 4 (last (Lotes_Acumulados (calcular_acumulados ?tabla 2700)))"
    using ne by (simp add: Lotes_Acumulados_redondeado last_map)
  then have t: "total_lotes_acumulados ?res = 29.3435"
    unfolding u total_2700_redondeado .
  show "\<exists>ps df r. generar_precios 2700 TOTAL_UNIDADES PASO = Inr ps
        \<and> main 2700 = Inr (Muestra_resultados df r)
        \<and> total_lotes_acumulados r = 29.3435
        \<and> last (Lotes_Acumulados
                  (calcular_acumulados \<lparr>Precio = ps, Lotes = asignar_lotes 2700 ps\<rparr> 2700))
            = 46.75 / 1.5932
        \<and> (46.75 / 1.5932 :: rat) \<noteq> 29.3435"
    using g m t u total_2700_no_redondo by blast
qed

end
